theory Spec2Isabelle
  imports Complex_Main
begin

section \<open>Numbers, errors and unpacking\<close>

text \<open>
  The model embeds \<^verbatim>\<open>piff/gsobject_model.py\<close>. Python and numpy floats are idealised as
  real numbers: the rounding and the overflow of doubles are not modelled, so a statement
  proved here is a statement of exact arithmetic. Every \<^verbatim>\<open>raise\<close> of the source, and every
  exception of the Python operations it uses (unpacking, subscripting), is a value \<open>Inl e\<close>
  of the result type \<open>error + 'a\<close>. Where numpy would go on with \<^verbatim>\<open>nan\<close> or \<^verbatim>\<open>inf\<close>
  (a division by zero, the square root of a negative number), the real numbers have no such
  value and the model stops with \<open>NonFinite\<close>.
\<close>

datatype error =
    ModelFitError string
  | RuntimeError string
  | GalSimRangeError string
  | TypeError string
  | ValueError string
  | KeyError string
  | NonFinite string

definition fdiv :: "real \<Rightarrow> real \<Rightarrow> error + real" where
  "fdiv a b = (if b = 0 then Inl (NonFinite ''division by zero'') else Inr (a / b))"

definition fsqrt :: "real \<Rightarrow> error + real" where
  "fsqrt a = (if a < 0 then Inl (NonFinite ''sqrt of a negative number'') else Inr (sqrt a))"

text \<open>
  Sequencing of fallible steps: the first error ends the computation, as a raised exception
  leaves the function.
\<close>

fun ebind :: "error + 'a \<Rightarrow> ('a \<Rightarrow> error + 'b) \<Rightarrow> error + 'b" where
  "ebind (Inl err) f = Inl err"
| "ebind (Inr v) f = f v"

section \<open>Shears\<close>

text \<open>
  Modelled from the spec: \<^verbatim>\<open>galsim.Shear\<close> is a class of the GalSim library, which is not
  part of the sources. A shear is held as the complex reduced shear \<open>g = g1 + i g2\<close>. The
  constructor from \<open>(g1, g2)\<close> refuses \<open>|g| > 1\<close>; the constructor from a distortion
  \<open>(e1, e2)\<close> refuses \<open>|e|\<^sup>2 > 1\<close> and converts with the factor \<open>1 / (1 + sqrt (1 - |e|\<^sup>2))\<close>;
  the distortion of a shear is \<open>g * 2 / (1 + |g|\<^sup>2)\<close> (the two factors are the ones written
  in the comments of the conversion functions of the source); shears compose by the
  shear-addition law \<open>(g + h) / (1 + cnj g * h)\<close>, and \<open>a - b\<close> is \<open>a + (- b)\<close>.
\<close>

type_synonym shear = complex

definition Shear_g :: "real \<Rightarrow> real \<Rightarrow> error + shear" where
  "Shear_g g1 g2 =
     (if cmod (Complex g1 g2) > 1 then Inl (GalSimRangeError ''Requested shear exceeds 1.'')
      else Inr (Complex g1 g2))"

definition e2g :: "real \<Rightarrow> real" where
  "e2g absesq = 1 / (1 + sqrt (1 - absesq))"

definition g2e :: "real \<Rightarrow> real" where
  "g2e absgsq = 2 / (1 + absgsq)"

definition Shear_e :: "real \<Rightarrow> real \<Rightarrow> error + shear" where
  "Shear_e e1 e2 =
     (let absesq = e1\<^sup>2 + e2\<^sup>2 in
      if absesq > 1 then Inl (GalSimRangeError ''Requested distortion exceeds 1.'')
      else Inr (Complex e1 e2 * of_real (e2g absesq)))"

definition shear_g1 :: "shear \<Rightarrow> real" where
  "shear_g1 s = Re s"

definition shear_g2 :: "shear \<Rightarrow> real" where
  "shear_g2 s = Im s"

definition shear_e1 :: "shear \<Rightarrow> real" where
  "shear_e1 s = Re s * g2e ((Re s)\<^sup>2 + (Im s)\<^sup>2)"

definition shear_e2 :: "shear \<Rightarrow> real" where
  "shear_e2 s = Im s * g2e ((Re s)\<^sup>2 + (Im s)\<^sup>2)"

definition shear_neg :: "shear \<Rightarrow> shear" where
  "shear_neg s = - s"

definition shear_add :: "shear \<Rightarrow> shear \<Rightarrow> error + shear" where
  "shear_add a b =
     (if 1 + cnj a * b = 0 then Inl (NonFinite ''division by zero'')
      else Inr ((a + b) / (1 + cnj a * b)))"

definition shear_sub :: "shear \<Rightarrow> shear \<Rightarrow> error + shear" where
  "shear_sub a b = shear_add a (shear_neg b)"

section \<open>The two shape bases\<close>

text \<open>
  \<^verbatim>\<open>convert_to_unnormalized_basis(scale, g1, g2)\<close> and
  \<^verbatim>\<open>convert_from_unnormalized_basis(e0, e1, e2)\<close>, statement by statement.
\<close>

definition convert_to_unnormalized_basis ::
  "real \<Rightarrow> real \<Rightarrow> real \<Rightarrow> error + (real \<times> real \<times> real)" where
  "convert_to_unnormalized_basis scale g1 g2 =
     ebind (Shear_g g1 g2) (\<lambda>shear.
     let e1norm = shear_e1 shear;
         e2norm = shear_e2 shear
     in ebind (fdiv (4 * scale ^ 4) (1 - e1norm\<^sup>2 - e2norm\<^sup>2)) (\<lambda>q.
        ebind (fsqrt q) (\<lambda>e0.
        let e1 = e1norm * e0;
            e2 = e2norm * e0
        in Inr (e0, e1, e2))))"

definition convert_from_unnormalized_basis ::
  "real \<Rightarrow> real \<Rightarrow> real \<Rightarrow> error + (real \<times> real \<times> real)" where
  "convert_from_unnormalized_basis e0 e1 e2 =
     ebind (fdiv e1 e0) (\<lambda>e1norm.
     ebind (fdiv e2 e0) (\<lambda>e2norm.
     ebind (Shear_e e1norm e2norm) (\<lambda>shear.
     let g1 = shear_g1 shear;
         g2 = shear_g2 shear
     in ebind (fsqrt (e0\<^sup>2 - e1\<^sup>2 - e2\<^sup>2)) (\<lambda>r.
        ebind (fsqrt (r * 0.5)) (\<lambda>scale.
        Inr (scale, g1, g2))))))"

section \<open>Data model\<close>

text \<open>
  Modelled from the spec: the classes \<^verbatim>\<open>Star\<close>, \<^verbatim>\<open>StarData\<close> and \<^verbatim>\<open>StarFit\<close> of
  \<^verbatim>\<open>piff/star.py\<close> are not among the sources. Their fields are the ones the spec lists
  and the source reads. An image is its pixel array, flattened, with the true centre of its
  bounds. A property is a scalar or a tuple (the cached moments are a 6-tuple under the key
  \<^verbatim>\<open>'hsm'\<close>). \<^verbatim>\<open>params\<close> may be \<^verbatim>\<open>None\<close>; \<^verbatim>\<open>chisq\<close>, \<^verbatim>\<open>dof\<close>, \<^verbatim>\<open>alpha\<close> and \<^verbatim>\<open>beta\<close> are
  \<^verbatim>\<open>None\<close> when the constructor is called without them.
\<close>

type_synonym position = "real \<times> real"

record image =
  img_array :: "real list"
  img_true_center :: position

datatype pval = Scalar real | Tuple "real list"

type_synonym properties = "string \<rightharpoonup> pval"

record stardata =
  sd_image :: image
  sd_image_pos :: position
  sd_weight :: image
  sd_pointing :: "position option"
  sd_properties :: properties

record starfit =
  sf_params :: "real list option"
  sf_flux :: real
  sf_center :: position
  sf_chisq :: "real option"
  sf_dof :: "int option"
  sf_alpha :: "real list option"
  sf_beta :: "real list list option"

record star =
  star_data :: stardata
  star_fit :: starfit

text \<open>
  A GalSim profile is the term of the transformations applied to a fiducial profile; only
  the renderer looks inside it.
\<close>

datatype gsobject =
    Fiducial string
  | WithFlux gsobject real
  | Dilate gsobject real
  | ShearBy gsobject shear
  | Shift gsobject real real
  | Times gsobject real

datatype draw_method = Auto | No_pixel

text \<open>The parameter set of the minimizer: an ordered mapping from names to parameters.\<close>

record lmparam =
  p_name :: string
  p_value :: real
  p_vary :: bool
  p_min :: "real option"
  p_max :: "real option"

type_synonym lmparams = "lmparam list"

record minimizer_result =
  r_params :: lmparams
  r_success :: bool
  r_chisqr :: real

text \<open>
  The external collaborators, as parameters of the model: the centroid of a profile, the
  renderer (the value \<^verbatim>\<open>drawImage\<close> writes into pixel \<open>i\<close> of the image it is given), the
  field position the \<^verbatim>\<open>StarData\<close> constructor derives for its position properties, the
  moment estimator \<^verbatim>\<open>hsm\<close> of \<^verbatim>\<open>piff/util.py\<close> (flux, centre, size, shape and status
  flag), and \<^verbatim>\<open>lmfit.minimize\<close>, which is given the residual function and the initial
  parameter set.
\<close>

record env =
  centroid :: "gsobject \<Rightarrow> position"
  render :: "gsobject \<Rightarrow> image \<Rightarrow> draw_method \<Rightarrow> position \<Rightarrow> nat \<Rightarrow> real"
  field_pos :: "image \<Rightarrow> position \<Rightarrow> position"
  hsm :: "star \<Rightarrow> real \<times> real \<times> real \<times> real \<times> real \<times> real \<times> int"
  minimize :: "(lmparams \<Rightarrow> error + real list) \<Rightarrow> lmparams \<Rightarrow> error + minimizer_result"

record model =
  m_gsobj :: gsobject
  m_fastfit :: bool
  m_force_model_center :: bool
  m_unnormalized_basis :: bool
  m_method :: draw_method
  m_nparams :: int

subsection \<open>Python operations on these data\<close>

definition unpack3 :: "real list option \<Rightarrow> error + (real \<times> real \<times> real)" where
  "unpack3 v = (case v of
       None \<Rightarrow> Inl (TypeError ''cannot unpack non-iterable NoneType object'')
     | Some [a, b, c] \<Rightarrow> Inr (a, b, c)
     | Some _ \<Rightarrow> Inl (ValueError ''wrong number of values to unpack (expected 3)''))"

definition unpack5 :: "real list option \<Rightarrow> error + (real \<times> real \<times> real \<times> real \<times> real)" where
  "unpack5 v = (case v of
       None \<Rightarrow> Inl (TypeError ''cannot unpack non-iterable NoneType object'')
     | Some [a, b, c, d, e] \<Rightarrow> Inr (a, b, c, d, e)
     | Some _ \<Rightarrow> Inl (ValueError ''wrong number of values to unpack (expected 5)''))"

definition unpack6 :: "real list \<Rightarrow> error + (real \<times> real \<times> real \<times> real \<times> real \<times> real)" where
  "unpack6 v = (case v of
       [a, b, c, d, e, f] \<Rightarrow> Inr (a, b, c, d, e, f)
     | _ \<Rightarrow> Inl (ValueError ''wrong number of values to unpack (expected 6)''))"

definition getitem :: "properties \<Rightarrow> string \<Rightarrow> error + pval" where
  "getitem d k = (case d k of None \<Rightarrow> Inl (KeyError k) | Some v \<Rightarrow> Inr v)"

definition unpack_moments :: "pval \<Rightarrow> error + (real \<times> real \<times> real \<times> real \<times> real \<times> real)" where
  "unpack_moments v = (case v of
       Scalar x \<Rightarrow> Inl (TypeError ''cannot unpack non-iterable float object'')
     | Tuple xs \<Rightarrow> unpack6 xs)"

text \<open>
  \<^verbatim>\<open>hasattr(obj, name)\<close> asks whether \<open>name\<close> is an attribute of the object. The
  properties are a Python \<^verbatim>\<open>dict\<close> (the source subscripts them, \<^verbatim>\<open>properties['hsm']\<close>), and
  the attributes of a \<^verbatim>\<open>dict\<close> are those of its class, whatever keys it holds.
\<close>

definition dict_attributes :: "string list" where
  "dict_attributes =
     [''clear'', ''copy'', ''fromkeys'', ''get'', ''items'', ''keys'', ''pop'', ''popitem'',
      ''setdefault'', ''update'', ''values'',
      ''__class__'', ''__contains__'', ''__delattr__'', ''__delitem__'', ''__dir__'',
      ''__doc__'', ''__eq__'', ''__format__'', ''__ge__'', ''__getattribute__'',
      ''__getitem__'', ''__gt__'', ''__hash__'', ''__init__'', ''__init_subclass__'',
      ''__iter__'', ''__le__'', ''__len__'', ''__lt__'', ''__ne__'', ''__new__'',
      ''__reduce__'', ''__reduce_ex__'', ''__repr__'', ''__setattr__'', ''__setitem__'',
      ''__sizeof__'', ''__str__'', ''__subclasshook__'', ''__class_getitem__'',
      ''__getstate__'', ''__ior__'', ''__or__'', ''__ror__'', ''__reversed__'']"

definition hasattr :: "properties \<Rightarrow> string \<Rightarrow> bool" where
  "hasattr d name = (name \<in> set dict_attributes)"

text \<open>Elementwise numpy arithmetic on the pixel arrays of one stamp, and its reductions.\<close>

definition arr_mul :: "real list \<Rightarrow> real list \<Rightarrow> real list" where
  "arr_mul xs ys = map2 (*) xs ys"

definition arr_sub :: "real list \<Rightarrow> real list \<Rightarrow> real list" where
  "arr_sub xs ys = map2 (-) xs ys"

definition arr_scale :: "real \<Rightarrow> real list \<Rightarrow> real list" where
  "arr_scale c xs = map ((*) c) xs"

definition arr_square :: "real list \<Rightarrow> real list" where
  "arr_square xs = map (\<lambda>x. x\<^sup>2) xs"

definition np_sum :: "real list \<Rightarrow> real" where
  "np_sum xs = sum_list xs"

definition count_nonzero :: "real list \<Rightarrow> int" where
  "count_nonzero xs = int (length (filter (\<lambda>x. x \<noteq> 0) xs))"

definition pos_sub :: "position \<Rightarrow> position \<Rightarrow> position" where
  "pos_sub a b = (fst a - fst b, snd a - snd b)"

text \<open>
  \<^verbatim>\<open>StarData(image, image_pos, weight, pointing)\<close>: no properties are passed, so the new
  data hold only the position properties the constructor writes itself (\<^verbatim>\<open>x\<close>, \<^verbatim>\<open>y\<close>, \<^verbatim>\<open>u\<close>,
  \<^verbatim>\<open>v\<close>: the keys that \<^verbatim>\<open>devel/time_optatmo_mkimage.py\<close> removes before it hands properties
  back to the constructor).
\<close>

definition StarData :: "env \<Rightarrow> image \<Rightarrow> position \<Rightarrow> image \<Rightarrow> position option \<Rightarrow> stardata" where
  "StarData en img image_pos weight pointing =
     \<lparr> sd_image = img, sd_image_pos = image_pos, sd_weight = weight, sd_pointing = pointing,
       sd_properties =
         [''x'' \<mapsto> Scalar (fst image_pos), ''y'' \<mapsto> Scalar (snd image_pos),
          ''u'' \<mapsto> Scalar (fst (field_pos en img image_pos)),
          ''v'' \<mapsto> Scalar (snd (field_pos en img image_pos))] \<rparr>"

definition drawImage :: "env \<Rightarrow> gsobject \<Rightarrow> image \<Rightarrow> draw_method \<Rightarrow> position \<Rightarrow> image" where
  "drawImage en prof img method offset =
     img \<lparr> img_array := map (render en prof img method offset) [0 ..< length (img_array img)] \<rparr>"

definition gs_shear :: "gsobject \<Rightarrow> real \<Rightarrow> real \<Rightarrow> error + gsobject" where
  "gs_shear prof g1 g2 = ebind (Shear_g g1 g2) (\<lambda>s. Inr (ShearBy prof s))"

section \<open>The model class\<close>

text \<open>
  \<^verbatim>\<open>GSObjectModel.__init__\<close>, for a profile given as an object (a profile given as a
  string is evaluated to an object first; the logger and the \<^verbatim>\<open>kwargs\<close> record kept for
  serialisation play no part in fitting and are left out, here and in every method).
\<close>

definition GSObjectModel :: "env \<Rightarrow> gsobject \<Rightarrow> bool \<Rightarrow> bool \<Rightarrow> bool \<Rightarrow> bool \<Rightarrow> model" where
  "GSObjectModel en gsobj fastfit force_model_center include_pixel unnormalized_basis =
     \<lparr> m_gsobj = Shift (WithFlux gsobj 1) (- fst (centroid en gsobj)) (- snd (centroid en gsobj)),
       m_fastfit = fastfit,
       m_force_model_center = force_model_center,
       m_unnormalized_basis = unnormalized_basis,
       m_method = (if include_pixel then Auto else No_pixel),
       m_nparams = (if force_model_center then 3 else 5) \<rparr>"

definition getProfile :: "model \<Rightarrow> real list option \<Rightarrow> error + gsobject" where
  "getProfile m params =
     ebind (if m_force_model_center m
            then ebind (unpack3 params) (\<lambda>(scale, g1, g2). Inr (0, 0, scale, g1, g2))
            else unpack5 params) (\<lambda>(du, dv, scale, g1, g2).
     ebind (if m_unnormalized_basis m
            then convert_from_unnormalized_basis scale g1 g2
            else Inr (scale, g1, g2)) (\<lambda>(scale, g1, g2).
     ebind (gs_shear (Dilate (m_gsobj m) scale) g1 g2) (\<lambda>sheared.
     Inr (Shift sheared du dv))))"

definition draw :: "env \<Rightarrow> model \<Rightarrow> star \<Rightarrow> error + star" where
  "draw en m star =
     ebind (getProfile m (sf_params (star_fit star))) (\<lambda>profile.
     let prof = Times (Shift profile (fst (sf_center (star_fit star)))
                                     (snd (sf_center (star_fit star))))
                      (sf_flux (star_fit star));
         img = sd_image (star_data star);
         img = drawImage en prof img (m_method m)
                 (pos_sub (sd_image_pos (star_data star)) (img_true_center img));
         dat = StarData en img (sd_image_pos (star_data star)) (sd_weight (star_data star))
                 (sd_pointing (star_data star))
     in Inr \<lparr> star_data = dat, star_fit = star_fit star \<rparr>)"

text \<open>
  \<^verbatim>\<open>moment_fit\<close>. In the unnormalized branch the source unpacks the converted triple into
  \<^verbatim>\<open>param_scale, param_g1, param_2\<close>: the third value goes to a name that is never read,
  and \<^verbatim>\<open>param_g2\<close> keeps the stored \<open>e2\<close>.
\<close>

definition moment_fit ::
  "env \<Rightarrow> model \<Rightarrow> star \<Rightarrow> error + (real \<times> real \<times> real \<times> real \<times> real \<times> real)" where
  "moment_fit en m star =
     ebind (getitem (sd_properties (star_data star)) ''hsm'') (\<lambda>cached.
     ebind (unpack_moments cached) (\<lambda>(flux, cenu, cenv, size, g1, g2).
     ebind (Shear_g g1 g2) (\<lambda>shape.
     ebind (draw en m star) (\<lambda>drawn.
     let (ref_flux, ref_cenu, ref_cenv, ref_size, ref_g1, ref_g2, flag) = hsm en drawn in
     ebind (Shear_g ref_g1 ref_g2) (\<lambda>ref_shape.
     if flag \<noteq> 0 then Inl (ModelFitError ''Error calculating model moments for this star.'')
     else
     let param_flux = sf_flux (star_fit star) in
     ebind (if m_force_model_center m
            then ebind (unpack3 (sf_params (star_fit star))) (\<lambda>(param_scale, param_g1, param_g2).
                 Inr (fst (sf_center (star_fit star)), snd (sf_center (star_fit star)),
                      param_scale, param_g1, param_g2))
            else unpack5 (sf_params (star_fit star)))
       (\<lambda>(param_du, param_dv, param_scale, param_g1, param_g2).
     ebind (if m_unnormalized_basis m
            then ebind (convert_from_unnormalized_basis param_scale param_g1 param_g2)
                   (\<lambda>(param_scale, param_g1, param_2). Inr (param_scale, param_g1, param_g2))
            else Inr (param_scale, param_g1, param_g2))
       (\<lambda>(param_scale, param_g1, param_g2).
     ebind (Shear_g param_g1 param_g2) (\<lambda>param_shear.
     ebind (fdiv flux ref_flux) (\<lambda>flux_ratio.
     let param_flux = param_flux * flux_ratio;
         param_du = param_du + (cenu - ref_cenu);
         param_dv = param_dv + (cenv - ref_cenv)
     in
     ebind (fdiv size ref_size) (\<lambda>size_ratio.
     let param_scale = param_scale * size_ratio in
     ebind (shear_sub shape ref_shape) (\<lambda>diff.
     ebind (shear_add param_shear diff) (\<lambda>param_shear.
     let param_g1 = shear_g1 param_shear;
         param_g2 = shear_g2 param_shear
     in
     ebind (if m_unnormalized_basis m
            then convert_to_unnormalized_basis param_scale param_g1 param_g2
            else Inr (param_scale, param_g1, param_g2))
       (\<lambda>(param_scale, param_g1, param_g2).
     Inr (param_flux, param_du, param_dv, param_scale, param_g1, param_g2))))))))))))))"

section \<open>The nonlinear fit\<close>

definition arr_sqrt :: "real list \<Rightarrow> error + real list" where
  "arr_sqrt xs =
     (if list_ex (\<lambda>x. x < 0) xs then Inl (NonFinite ''sqrt of a negative number'')
      else Inr (map sqrt xs))"

definition lmfit_resid :: "env \<Rightarrow> model \<Rightarrow> lmparams \<Rightarrow> star \<Rightarrow> error + real list" where
  "lmfit_resid en m lmparams star =
     (let img = sd_image (star_data star);
          weight = sd_weight (star_data star);
          image_pos = sd_image_pos (star_data star)
      in
      ebind (unpack6 (map p_value lmparams)) (\<lambda>(flux, du, dv, p3, p4, p5).
      ebind (if m_unnormalized_basis m
             then convert_from_unnormalized_basis p3 p4 p5
             else Inr (p3, p4, p5)) (\<lambda>(scale, g1, g2).
      ebind (gs_shear (Dilate (m_gsobj m) scale) g1 g2) (\<lambda>sheared.
      let prof = Times (Shift sheared du dv) flux;
          model_image = drawImage en prof img (m_method m)
                          (pos_sub image_pos (img_true_center img))
      in
      ebind (arr_sqrt (img_array weight)) (\<lambda>sw.
      Inr (arr_mul sw (arr_sub (img_array model_image) (img_array img))))))))"

text \<open>
  \<^verbatim>\<open>lmfit.Parameters.add\<close>: a new name is appended, a known name is replaced in place.
  A bound that is not given is absent (\<open>None\<close>: unbounded on that side). A new parameter
  clips its value to its bounds: a value above the maximum becomes the maximum, then a value
  below the minimum becomes the minimum.
\<close>

definition clip :: "real option \<Rightarrow> real option \<Rightarrow> real \<Rightarrow> real" where
  "clip mn mx val =
     (let val = (case mx of None \<Rightarrow> val | Some hi \<Rightarrow> if val > hi then hi else val)
      in case mn of None \<Rightarrow> val | Some lo \<Rightarrow> if val < lo then lo else val)"

definition params_add ::
  "lmparams \<Rightarrow> string \<Rightarrow> real \<Rightarrow> bool \<Rightarrow> real option \<Rightarrow> real option \<Rightarrow> lmparams" where
  "params_add ps name val vary mn mx =
     (let p = \<lparr> p_name = name, p_value = clip mn mx val, p_vary = vary,
                p_min = mn, p_max = mx \<rparr>
      in if name \<in> set (map p_name ps)
         then map (\<lambda>q. if p_name q = name then p else q) ps
         else ps @ [p])"

text \<open>
  \<^verbatim>\<open>_lmfit_params\<close>. When the parameters are unset, the source unpacks the six values
  \<^verbatim>\<open>moment_fit\<close> returns into seven names, which raises \<^verbatim>\<open>ValueError\<close>; the test of the
  seventh, \<^verbatim>\<open>flag\<close>, is never reached.
\<close>

definition lmfit_params ::
  "env \<Rightarrow> model \<Rightarrow> star \<Rightarrow> bool \<Rightarrow> bool \<Rightarrow> bool \<Rightarrow> error + lmparams" where
  "lmfit_params en m star vary_params vary_flux vary_center =
     ebind (if sf_params (star_fit star) = None
            then ebind (moment_fit en m star) (\<lambda>six.
                 Inl (ValueError ''not enough values to unpack (expected 7, got 6)''))
            else
              let flux = sf_flux (star_fit star) in
              if m_force_model_center m
              then let (du, dv) = sf_center (star_fit star) in
                   ebind (unpack3 (sf_params (star_fit star))) (\<lambda>(scale, g1, g2).
                   Inr (flux, du, dv, scale, g1, g2))
              else ebind (unpack5 (sf_params (star_fit star))) (\<lambda>(du, dv, scale, g1, g2).
                   Inr (flux, du, dv, scale, g1, g2)))
       (\<lambda>(flux, du, dv, scale, g1, g2).
     let params = [];
         params = params_add params ''flux'' flux vary_flux (Some 0) None;
         params = params_add params ''du'' du vary_center None None;
         params = params_add params ''dv'' dv vary_center None None;
         params = params_add params (if m_unnormalized_basis m then ''e0'' else ''scale'')
                    scale vary_params (Some 0) None;
         maxg = (if m_unnormalized_basis m then 5 else 0.7);
         params = params_add params (if m_unnormalized_basis m then ''e1'' else ''g1'')
                    g1 vary_params (Some (- maxg)) (Some maxg);
         params = params_add params (if m_unnormalized_basis m then ''e2'' else ''g2'')
                    g2 vary_params (Some (- maxg)) (Some maxg)
     in Inr params)"

definition lmfit_minimize :: "env \<Rightarrow> model \<Rightarrow> lmparams \<Rightarrow> star \<Rightarrow> error + minimizer_result" where
  "lmfit_minimize en m params star = minimize en (\<lambda>lmparams. lmfit_resid en m lmparams star) params"

definition lmfit ::
  "env \<Rightarrow> model \<Rightarrow> star \<Rightarrow> error + (real \<times> real \<times> real \<times> real \<times> real \<times> real)" where
  "lmfit en m star =
     ebind (lmfit_params en m star True True True) (\<lambda>params.
     ebind (lmfit_minimize en m params star) (\<lambda>results.
     ebind (unpack6 (map p_value (r_params results))) (\<lambda>(flux, du, dv, scale, g1, g2).
     if \<not> r_success results then Inl (RuntimeError ''Error fitting with lmfit.'')
     else Inr (flux, du, dv, scale, g1, g2))))"

section \<open>Cached moments, reflux, fit and initialize\<close>

definition with_hsm :: "env \<Rightarrow> star \<Rightarrow> error + star" where
  "with_hsm en star =
     (if \<not> hasattr (sd_properties (star_data star)) ''hsm''
      then let (flux, cenu, cenv, size, g1, g2, flag) = hsm en star in
           if flag \<noteq> 0
           then Inl (RuntimeError ''Error initializing star fit values using hsm.'')
           else let sd = star_data star;
                    sd = sd \<lparr> sd_properties :=
                           (sd_properties sd)(''hsm'' \<mapsto> Tuple [flux, cenu, cenv, size, g1, g2]) \<rparr>
                in Inr \<lparr> star_data = sd, star_fit = star_fit star \<rparr>
      else Inr star)"

definition param_value :: "lmparams \<Rightarrow> string \<Rightarrow> error + real" where
  "param_value ps name =
     (case find (\<lambda>p. p_name p = name) ps of
        None \<Rightarrow> Inl (KeyError name)
      | Some p \<Rightarrow> Inr (p_value p))"

definition reflux :: "env \<Rightarrow> model \<Rightarrow> star \<Rightarrow> bool \<Rightarrow> error + star" where
  "reflux en m star fit_center =
     (let do_center = (fit_center \<and> m_force_model_center m) in
      if do_center
      then
        ebind (lmfit_params en m star False True True) (\<lambda>params.
        ebind (lmfit_minimize en m params star) (\<lambda>results.
        ebind (param_value (r_params results) ''flux'') (\<lambda>new_flux.
        ebind (param_value (r_params results) ''du'') (\<lambda>new_du.
        ebind (param_value (r_params results) ''dv'') (\<lambda>new_dv.
        Inr \<lparr> star_data = star_data star,
              star_fit = \<lparr> sf_params = sf_params (star_fit star),
                           sf_flux = new_flux,
                           sf_center = (new_du, new_dv),
                           sf_chisq = Some (r_chisqr results),
                           sf_dof = Some (count_nonzero (img_array (sd_weight (star_data star))) - 3),
                           sf_alpha = sf_alpha (star_fit star),
                           sf_beta = sf_beta (star_fit star) \<rparr> \<rparr>)))))
      else
        let img = sd_image (star_data star);
            weight = sd_weight (star_data star)
        in
        ebind (draw en m star) (\<lambda>drawn.
        let model_image = sd_image (star_data drawn) in
        ebind (fdiv (np_sum (arr_mul (arr_mul (img_array weight) (img_array img))
                                     (img_array model_image)))
                    (np_sum (arr_mul (img_array weight) (arr_square (img_array model_image)))))
          (\<lambda>flux_ratio.
        let new_chisq = np_sum (arr_mul (img_array weight)
                          (arr_square (arr_sub (img_array img)
                                         (arr_scale flux_ratio (img_array model_image)))))
        in
        Inr \<lparr> star_data = star_data star,
              star_fit = \<lparr> sf_params = sf_params (star_fit star),
                           sf_flux = sf_flux (star_fit star) * flux_ratio,
                           sf_center = sf_center (star_fit star),
                           sf_chisq = Some new_chisq,
                           sf_dof = Some (count_nonzero (img_array weight) - 1),
                           sf_alpha = sf_alpha (star_fit star),
                           sf_beta = sf_beta (star_fit star) \<rparr> \<rparr>)))"

text \<open>
  \<^verbatim>\<open>fit\<close> calls \<^verbatim>\<open>initialize\<close>, and \<^verbatim>\<open>initialize\<close> calls \<^verbatim>\<open>fit\<close> on a star whose parameters
  it has just set. The recursion ends because the inner \<^verbatim>\<open>initialize\<close> then finds the
  parameters set and does not fit again. The argument \<^verbatim>\<open>mask\<close> of \<^verbatim>\<open>initialize\<close> is never
  read and is left out.
\<close>

lemma ebind_cong [fundef_cong]:
  "x = y \<Longrightarrow> (\<And>v. y = Inr v \<Longrightarrow> f v = g v) \<Longrightarrow> ebind x f = ebind y g"
  by (cases y) simp_all

lemma with_hsm_fit: "with_hsm en star = Inr star' \<Longrightarrow> star_fit star' = star_fit star"
  by (auto simp: with_hsm_def Let_def split: if_splits prod.splits)

function fit :: "env \<Rightarrow> model \<Rightarrow> star \<Rightarrow> bool option \<Rightarrow> error + star"
  and initialize :: "env \<Rightarrow> model \<Rightarrow> star \<Rightarrow> error + star" where
  "fit en m star fastfit =
     (let fastfit = (case fastfit of None \<Rightarrow> m_fastfit m | Some b \<Rightarrow> b) in
      ebind (if \<not> hasattr (sd_properties (star_data star)) ''hsm''
             then initialize en m star
             else Inr star) (\<lambda>star.
      ebind (if fastfit then moment_fit en m star else lmfit en m star)
        (\<lambda>(flux, du, dv, scale, g1, g2).
      let (params, center) =
            (if m_force_model_center m
             then ([scale, g1, g2], (du, dv))
             else ([du, dv, scale, g1, g2], (0, 0)))
      in
      ebind (getProfile m (Some params)) (\<lambda>profile.
      let prof = Times profile flux;
          img = sd_image (star_data star);
          model_image = drawImage en (Shift prof (fst center) (snd center)) img (m_method m)
                          (pos_sub (sd_image_pos (star_data star)) (img_true_center img));
          chisq = np_sum (arr_mul (img_array (sd_weight (star_data star)))
                     (arr_square (arr_sub (img_array (sd_image (star_data star)))
                                          (img_array model_image))));
          dof = count_nonzero (img_array (sd_weight (star_data star))) - m_nparams m;
          new_fit = \<lparr> sf_params = Some params, sf_flux = flux, sf_center = center,
                      sf_chisq = Some chisq, sf_dof = Some dof,
                      sf_alpha = None, sf_beta = None \<rparr>
      in Inr \<lparr> star_data = star_data star, star_fit = new_fit \<rparr>))))"
| "initialize en m star =
     ebind (with_hsm en star) (\<lambda>star.
     ebind (if sf_params (star_fit star) = None
            then
              let params = (if m_force_model_center m
                            then [1, 0, 0]
                            else [0, 0, 1, 0, 0]);
                  new_fit = \<lparr> sf_params = Some params, sf_flux = 1, sf_center = (0, 0),
                              sf_chisq = None, sf_dof = None,
                              sf_alpha = None, sf_beta = None \<rparr>;
                  star = \<lparr> star_data = star_data star, star_fit = new_fit \<rparr>
              in fit en m star (Some True)
            else Inr star) (\<lambda>star.
     reflux en m star False))"
  by pat_completeness auto
termination
  by (relation "measure (\<lambda>x. case x of
          Inl (en, m, star, fastfit) \<Rightarrow> (if sf_params (star_fit star) = None then 3 else 1)
        | Inr (en, m, star) \<Rightarrow> (if sf_params (star_fit star) = None then 2 else 0))")
     (auto dest: with_hsm_fit)

declare fit.simps [simp del] initialize.simps [simp del]

section \<open>Bounds of a parameter\<close>

text \<open>
  \<^verbatim>\<open>lmfit\<close> keeps the value of a parameter between its bounds: these are the values a
  parameter admits. A parameter set \<open>q\<close> is within the bounds of the set \<open>ps\<close> when it has the
  names of \<open>ps\<close>, in order, and each value is admitted by the parameter of \<open>ps\<close> it stands for.
\<close>

definition admits :: "lmparam \<Rightarrow> real \<Rightarrow> bool" where
  "admits p v = ((case p_min p of None \<Rightarrow> True | Some lo \<Rightarrow> lo \<le> v)
               \<and> (case p_max p of None \<Rightarrow> True | Some hi \<Rightarrow> v \<le> hi))"

definition in_bounds :: "lmparams \<Rightarrow> lmparams \<Rightarrow> bool" where
  "in_bounds ps q = list_all2 (\<lambda>p r. p_name r = p_name p \<and> admits p (p_value r)) ps q"

text \<open>
  The contract of the external minimizer: it invokes the residual function only at parameter
  sets within the bounds of the set it is given. A function can only be observed through
  its results, so the contract reads: two residual functions that agree on every parameter
  set within the bounds give the same result.
\<close>

definition honours_bounds ::
  "((lmparams \<Rightarrow> error + real list) \<Rightarrow> lmparams \<Rightarrow> error + minimizer_result) \<Rightarrow> bool" where
  "honours_bounds mz =
     (\<forall>f g ps. (\<forall>q. in_bounds ps q \<longrightarrow> f q = g q) \<longrightarrow> mz f ps = mz g ps)"

text \<open>
  A residual evaluator that cannot be invoked with a negative size: where the fourth
  parameter (the size) is negative it fails, elsewhere it is the given evaluator.
\<close>

definition nonneg_size_only ::
  "(lmparams \<Rightarrow> error + real list) \<Rightarrow> lmparams \<Rightarrow> error + real list" where
  "nonneg_size_only resid q =
     (if 3 < length q \<and> p_value (q ! 3) < 0 then Inl (ValueError ''negative size'')
      else resid q)"

section \<open>Example inputs\<close>

text \<open>
  A three-pixel stamp whose last pixel has weight zero, with cached moments; a renderer
  that draws \<open>1, 2, 3\<close>; a moment estimator that succeeds; a minimizer that returns its
  initial parameters. \<open>failing_hsm\<close> always reports a bad flag and \<open>other_hsm\<close> measures a
  flux other than the cached one.
\<close>

definition ex_env :: env where
  "ex_env = \<lparr> centroid = (\<lambda>prof. (0, 0)),
              render = (\<lambda>prof img method offset i. real (Suc i)),
              field_pos = (\<lambda>img image_pos. image_pos),
              hsm = (\<lambda>star. (1, 0, 0, 1, 0, 0, 0)),
              minimize = (\<lambda>resid params.
                 Inr \<lparr> r_params = params, r_success = True, r_chisqr = 0 \<rparr>) \<rparr>"

definition ex_data :: stardata where
  "ex_data = \<lparr> sd_image = \<lparr> img_array = [2, 4, 7], img_true_center = (1, 0) \<rparr>,
               sd_image_pos = (1, 0),
               sd_weight = \<lparr> img_array = [1, 1, 0], img_true_center = (1, 0) \<rparr>,
               sd_pointing = None,
               sd_properties = [''hsm'' \<mapsto> Tuple [1, 0, 0, 1, 0, 0]] \<rparr>"

definition ex_star :: "real list option \<Rightarrow> star" where
  "ex_star params =
     \<lparr> star_data = ex_data,
       star_fit = \<lparr> sf_params = params, sf_flux = 1, sf_center = (0, 0),
                    sf_chisq = None, sf_dof = None, sf_alpha = None, sf_beta = None \<rparr> \<rparr>"

definition ex_model :: "bool \<Rightarrow> model" where
  "ex_model unnormalized_basis =
     GSObjectModel ex_env (Fiducial ''galsim.Gaussian(sigma=1.0)'') False True True
       unnormalized_basis"

text \<open>
  A minimizer that invokes the residual function once, at the initial parameters, and
  reports the sum of the squared residuals there.
\<close>

definition one_step_minimize ::
  "(lmparams \<Rightarrow> error + real list) \<Rightarrow> lmparams \<Rightarrow> error + minimizer_result" where
  "one_step_minimize resid ps =
     (if in_bounds ps ps
      then ebind (resid ps) (\<lambda>chi.
           Inr \<lparr> r_params = ps, r_success = True, r_chisqr = sum_list (map (\<lambda>x. x\<^sup>2) chi) \<rparr>)
      else Inl (ValueError ''initial value outside its bounds''))"

definition failing_hsm :: "star \<Rightarrow> real \<times> real \<times> real \<times> real \<times> real \<times> real \<times> int" where
  "failing_hsm star = (0, 0, 0, 0, 0, 0, 1)"

definition other_hsm :: "star \<Rightarrow> real \<times> real \<times> real \<times> real \<times> real \<times> real \<times> int" where
  "other_hsm star = (2, 0, 0, 1, 0, 0, 0)"

section \<open>The basis round trip over the reals\<close>

lemma unit_disc_factor:
  fixes a :: real
  assumes "0 \<le> a" "a < 1"
  shows "1 - 4 * a / (1 + a)\<^sup>2 = ((1 - a) / (1 + a))\<^sup>2"
proof -
  have "(1 + a)\<^sup>2 \<noteq> 0" using assms by simp
  have "1 - 4 * a / (1 + a)\<^sup>2 = ((1 + a)\<^sup>2 - 4 * a) / (1 + a)\<^sup>2"
    using \<open>(1 + a)\<^sup>2 \<noteq> 0\<close> by (simp add: diff_divide_distrib)
  also have "(1 + a)\<^sup>2 - 4 * a = (1 - a)\<^sup>2" by (simp add: power2_eq_square algebra_simps)
  finally show ?thesis by (simp add: power_divide)
qed

lemma distortion_norm:
  fixes g1 g2 :: real
  shows "(shear_e1 (Complex g1 g2))\<^sup>2 + (shear_e2 (Complex g1 g2))\<^sup>2
         = 4 * (g1\<^sup>2 + g2\<^sup>2) / (1 + (g1\<^sup>2 + g2\<^sup>2))\<^sup>2"
proof -
  define c where "c = g2e (g1\<^sup>2 + g2\<^sup>2)"
  have "(g1 * c)\<^sup>2 + (g2 * c)\<^sup>2 = (g1\<^sup>2 + g2\<^sup>2) * c\<^sup>2"
    by (simp add: power_mult_distrib distrib_right)
  moreover have "c\<^sup>2 = 4 / (1 + (g1\<^sup>2 + g2\<^sup>2))\<^sup>2"
    by (simp add: c_def g2e_def power_divide)
  ultimately show ?thesis
    by (simp add: shear_e1_def shear_e2_def c_def)
qed

lemma Shear_g_ok:
  "g1\<^sup>2 + g2\<^sup>2 \<le> 1 \<Longrightarrow> Shear_g g1 g2 = Inr (Complex g1 g2)"
  by (simp add: Shear_g_def cmod_def)

lemma Shear_g_bad:
  "g1\<^sup>2 + g2\<^sup>2 > 1 \<Longrightarrow> Shear_g g1 g2 = Inl (GalSimRangeError ''Requested shear exceeds 1.'')"
  by (simp add: Shear_g_def cmod_def)

lemma to_unnormalized_closed_form:
  fixes scale g1 g2 :: real
  assumes a: "g1\<^sup>2 + g2\<^sup>2 < 1"
  defines "k \<equiv> 2 * scale\<^sup>2 * (1 + (g1\<^sup>2 + g2\<^sup>2)) / (1 - (g1\<^sup>2 + g2\<^sup>2))"
  shows "convert_to_unnormalized_basis scale g1 g2 =
           Inr (k, g1 * g2e (g1\<^sup>2 + g2\<^sup>2) * k, g2 * g2e (g1\<^sup>2 + g2\<^sup>2) * k)"
proof -
  define a where "a = g1\<^sup>2 + g2\<^sup>2"
  have a0: "0 \<le> a" and a1: "a < 1" using a by (simp_all add: a_def)
  have den: "1 - (shear_e1 (Complex g1 g2))\<^sup>2 - (shear_e2 (Complex g1 g2))\<^sup>2 = ((1 - a) / (1 + a))\<^sup>2"
    using distortion_norm [of g1 g2] unit_disc_factor [OF a0 a1] by (simp add: a_def)
  have den0: "((1 - a) / (1 + a))\<^sup>2 \<noteq> 0" using a0 a1 by simp
  have q: "4 * scale ^ 4 / ((1 - a) / (1 + a))\<^sup>2 = (2 * scale\<^sup>2 * (1 + a) / (1 - a))\<^sup>2"
    by (simp add: power_divide power_mult_distrib)
  have k0: "0 \<le> 2 * scale\<^sup>2 * (1 + a) / (1 - a)" using a0 a1 by simp
  have sq: "sqrt (4 * scale ^ 4 / ((1 - a) / (1 + a))\<^sup>2) = k"
    unfolding q k_def a_def [symmetric] using k0 by (simp only: real_sqrt_abs abs_of_nonneg)
  have qpos: "\<not> (2 * scale\<^sup>2 * (1 + a) / (1 - a))\<^sup>2 < 0" by simp
  have s1: "Shear_g g1 g2 = Inr (Complex g1 g2)" using a by (simp add: Shear_g_ok)
  have s2: "fdiv (4 * scale ^ 4)
              (1 - (shear_e1 (Complex g1 g2))\<^sup>2 - (shear_e2 (Complex g1 g2))\<^sup>2)
            = Inr (4 * scale ^ 4 / ((1 - a) / (1 + a))\<^sup>2)"
    unfolding den using den0 by (simp add: fdiv_def)
  have s3: "fsqrt (4 * scale ^ 4 / ((1 - a) / (1 + a))\<^sup>2) = Inr k"
    using sq qpos unfolding q by (simp add: fsqrt_def)
  show ?thesis
    unfolding convert_to_unnormalized_basis_def s1 Let_def ebind.simps s2 s3
    by (simp add: shear_e1_def shear_e2_def)
qed

lemma from_unnormalized_closed_form:
  fixes scale g1 g2 :: real
  assumes a: "g1\<^sup>2 + g2\<^sup>2 < 1" and sc: "0 < scale"
  defines "k \<equiv> 2 * scale\<^sup>2 * (1 + (g1\<^sup>2 + g2\<^sup>2)) / (1 - (g1\<^sup>2 + g2\<^sup>2))"
  shows "convert_from_unnormalized_basis k (g1 * g2e (g1\<^sup>2 + g2\<^sup>2) * k) (g2 * g2e (g1\<^sup>2 + g2\<^sup>2) * k)
           = Inr (scale, g1, g2)"
proof -
  define a where "a = g1\<^sup>2 + g2\<^sup>2"
  define c where "c = g2e a"
  have a0: "0 \<le> a" and a1: "a < 1" using a by (simp_all add: a_def)
  have kpos: "0 < k" unfolding k_def a_def [symmetric] using a0 a1 sc by simp
  have c_eq: "c = 2 / (1 + a)" by (simp add: c_def g2e_def)
  have ac: "(g1 * c)\<^sup>2 + (g2 * c)\<^sup>2 = 4 * a / (1 + a)\<^sup>2"
    using distortion_norm [of g1 g2] by (simp add: shear_e1_def shear_e2_def c_def a_def)
  have one_minus: "1 - ((g1 * c)\<^sup>2 + (g2 * c)\<^sup>2) = ((1 - a) / (1 + a))\<^sup>2"
    unfolding ac by (rule unit_disc_factor [OF a0 a1])
  have r0: "0 \<le> (1 - a) / (1 + a)" using a0 a1 by simp
  have le1: "\<not> (g1 * c)\<^sup>2 + (g2 * c)\<^sup>2 > 1"
    using one_minus zero_le_power2 [of "(1 - a) / (1 + a)"] by linarith
  have rt: "sqrt (1 - ((g1 * c)\<^sup>2 + (g2 * c)\<^sup>2)) = (1 - a) / (1 + a)"
    unfolding one_minus using r0 by (simp only: real_sqrt_abs abs_of_nonneg)
  have fac: "e2g ((g1 * c)\<^sup>2 + (g2 * c)\<^sup>2) = (1 + a) / 2"
    unfolding e2g_def rt using a0 by (simp add: field_simps)
  have cfac: "c * ((1 + a) / 2) = 1" unfolding c_eq using a0 by simp
  have d1: "fdiv (g1 * c * k) k = Inr (g1 * c)" and d2: "fdiv (g2 * c * k) k = Inr (g2 * c)"
    using kpos by (simp_all add: fdiv_def)
  have sh: "Shear_e (g1 * c) (g2 * c) = Inr (Complex g1 g2)"
  proof -
    have "Complex (g1 * c) (g2 * c) * of_real ((1 + a) / 2)
          = Complex (g1 * (c * ((1 + a) / 2))) (g2 * (c * ((1 + a) / 2)))"
      by (simp add: complex_eq_iff)
    then have "Complex (g1 * c) (g2 * c) * of_real ((1 + a) / 2) = Complex g1 g2"
      by (simp only: cfac mult_1_right)
    then show ?thesis
      unfolding Shear_e_def Let_def fac using le1 by (simp only: if_False)
  qed
  have inner: "k\<^sup>2 - (g1 * c * k)\<^sup>2 - (g2 * c * k)\<^sup>2 = (k * ((1 - a) / (1 + a)))\<^sup>2"
  proof -
    have "k\<^sup>2 - (g1 * c * k)\<^sup>2 - (g2 * c * k)\<^sup>2 = k\<^sup>2 * (1 - ((g1 * c)\<^sup>2 + (g2 * c)\<^sup>2))"
      by (simp add: power_mult_distrib algebra_simps)
    also have "\<dots> = k\<^sup>2 * ((1 - a) / (1 + a))\<^sup>2" by (simp only: one_minus)
    also have "\<dots> = (k * ((1 - a) / (1 + a)))\<^sup>2" by (simp only: power_mult_distrib)
    finally show ?thesis .
  qed
  have kr: "k * ((1 - a) / (1 + a)) = 2 * scale\<^sup>2"
    unfolding k_def a_def [symmetric] using a0 a1 by simp
  have f1: "fsqrt (k\<^sup>2 - (g1 * c * k)\<^sup>2 - (g2 * c * k)\<^sup>2) = Inr (2 * scale\<^sup>2)"
  proof -
    have "0 \<le> 2 * scale\<^sup>2" by simp
    then have "sqrt ((2 * scale\<^sup>2)\<^sup>2) = 2 * scale\<^sup>2"
      by (simp only: real_sqrt_abs abs_of_nonneg)
    then show ?thesis unfolding inner kr by (simp add: fsqrt_def)
  qed
  have f2: "fsqrt (2 * scale\<^sup>2 * 0.5) = Inr scale"
    using sc by (simp add: fsqrt_def)
  show ?thesis
    unfolding convert_from_unnormalized_basis_def a_def [symmetric] c_def [symmetric]
      d1 d2 ebind.simps sh Let_def f1 f2
    by (simp add: shear_g1_def shear_g2_def)
qed

text \<open>
  The round trip in exact arithmetic: for every scale \<open>> 0\<close> and every \<open>(g1, g2)\<close> with
  \<open>g1\<^sup>2 + g2\<^sup>2 < 1\<close>, converting to the unnormalized basis and back gives
  \<open>(scale, g1, g2)\<close> again. This is a law of the real numbers only. The doubles of the code
  do not follow it on the whole domain: near \<open>|g| = 1\<close> the denominator
  \<open>1 - e1norm\<^sup>2 - e2norm\<^sup>2\<close> rounds to zero and the division raises, and for a very large
  scale \<open>scale ** 4\<close> overflows. What the code does there is outside this model.
\<close>

lemma real_basis_round_trip:
  fixes scale g1 g2 :: real
  assumes "0 < scale" and "g1\<^sup>2 + g2\<^sup>2 < 1"
  shows "\<exists>e0 e1 e2. convert_to_unnormalized_basis scale g1 g2 = Inr (e0, e1, e2)
           \<and> convert_from_unnormalized_basis e0 e1 e2 = Inr (scale, g1, g2)"
  using to_unnormalized_closed_form [OF assms(2), of scale]
    from_unnormalized_closed_form [OF assms(2) assms(1)]
  by blast

section \<open>Facts about the operations\<close>

lemma hasattr_hsm: "\<not> hasattr d ''hsm''"
  by (simp add: hasattr_def dict_attributes_def)

lemma ebind_eq_Inr: "ebind x f = Inr r \<longleftrightarrow> (\<exists>v. x = Inr v \<and> f v = Inr r)"
  by (cases x) simp_all

lemma sqrt_rat: "0 \<le> y \<Longrightarrow> y\<^sup>2 = x \<Longrightarrow> sqrt x = (y::real)"
  by (auto simp: real_sqrt_abs)

lemma sum_list_map2:
  fixes f :: "real \<Rightarrow> real \<Rightarrow> real"
  shows "sum_list (map2 f xs ys) = (\<Sum>i<min (length xs) (length ys). f (xs ! i) (ys ! i))"
proof -
  have "sum_list (map2 f xs ys) = (\<Sum>i = 0..<length (map2 f xs ys). map2 f xs ys ! i)"
    by (rule sum_list_sum_nth)
  also have "\<dots> = (\<Sum>i = 0..<min (length xs) (length ys). f (xs ! i) (ys ! i))"
    by (rule sum.cong) simp_all
  finally show ?thesis by (simp add: atLeast0LessThan)
qed

lemma draw_image_length:
  assumes "draw en m star = Inr drawn"
  shows "length (img_array (sd_image (star_data drawn)))
           = length (img_array (sd_image (star_data star)))"
  using assms by (auto simp: draw_def Let_def ebind_eq_Inr StarData_def drawImage_def)

lemma draw_minimize_irrelevant: "draw (en \<lparr> minimize := mz \<rparr>) m star = draw en m star"
  by (simp add: draw_def drawImage_def StarData_def Let_def)

lemma count_nonzero_card:
  "count_nonzero xs = int (card {i. i < length xs \<and> xs ! i \<noteq> 0})"
  by (simp add: count_nonzero_def length_filter_conv_card)

lemma getProfile_unset:
  "getProfile m None = Inl (TypeError ''cannot unpack non-iterable NoneType object'')"
  by (simp add: getProfile_def unpack3_def unpack5_def)

lemma lmfit_params_shape:
  assumes "lmfit_params en m star vary_params vary_flux vary_center = Inr ps"
  shows "\<exists>flux du dv scale g1 g2. 0 \<le> flux \<and> 0 \<le> scale \<and> ps =
    [\<lparr>p_name = ''flux'', p_value = flux, p_vary = vary_flux, p_min = Some 0, p_max = None\<rparr>,
     \<lparr>p_name = ''du'', p_value = du, p_vary = vary_center, p_min = None, p_max = None\<rparr>,
     \<lparr>p_name = ''dv'', p_value = dv, p_vary = vary_center, p_min = None, p_max = None\<rparr>,
     \<lparr>p_name = (if m_unnormalized_basis m then ''e0'' else ''scale''), p_value = scale,
       p_vary = vary_params, p_min = Some 0, p_max = None\<rparr>,
     \<lparr>p_name = (if m_unnormalized_basis m then ''e1'' else ''g1''), p_value = g1,
       p_vary = vary_params,
       p_min = Some (- (if m_unnormalized_basis m then 5 else 0.7)),
       p_max = Some (if m_unnormalized_basis m then 5 else 0.7)\<rparr>,
     \<lparr>p_name = (if m_unnormalized_basis m then ''e2'' else ''g2''), p_value = g2,
       p_vary = vary_params,
       p_min = Some (- (if m_unnormalized_basis m then 5 else 0.7)),
       p_max = Some (if m_unnormalized_basis m then 5 else 0.7)\<rparr>]"
proof -
  from assms obtain flux du dv scale g1 g2 where
    "(let params = [];
         params = params_add params ''flux'' flux vary_flux (Some 0) None;
         params = params_add params ''du'' du vary_center None None;
         params = params_add params ''dv'' dv vary_center None None;
         params = params_add params (if m_unnormalized_basis m then ''e0'' else ''scale'')
                    scale vary_params (Some 0) None;
         maxg = (if m_unnormalized_basis m then 5 else 0.7);
         params = params_add params (if m_unnormalized_basis m then ''e1'' else ''g1'')
                    g1 vary_params (Some (- maxg)) (Some maxg);
         params = params_add params (if m_unnormalized_basis m then ''e2'' else ''g2'')
                    g2 vary_params (Some (- maxg)) (Some maxg)
     in (Inr params :: error + lmparams)) = Inr ps"
    unfolding lmfit_params_def ebind_eq_Inr by (auto simp: split_def)
  then show ?thesis
    by (cases "m_unnormalized_basis m") (auto simp: params_add_def clip_def Let_def)
qed

section \<open>The examples, evaluated\<close>

lemma ex_draw:
  "draw ex_env (ex_model False) (ex_star (Some [1, 0, 0])) =
     Inr \<lparr> star_data = StarData ex_env \<lparr> img_array = [1, 2, 3], img_true_center = (1, 0) \<rparr>
                          (1, 0) \<lparr> img_array = [1, 1, 0], img_true_center = (1, 0) \<rparr> None,
           star_fit = star_fit (ex_star (Some [1, 0, 0])) \<rparr>"
  by (simp add: draw_def getProfile_def ex_model_def GSObjectModel_def ex_star_def ex_data_def
      unpack3_def gs_shear_def Shear_g_ok drawImage_def ex_env_def Let_def)

lemma ex_reflux:
  "reflux ex_env (ex_model False) (ex_star (Some [1, 0, 0])) False =
     Inr \<lparr> star_data = ex_data,
           star_fit = \<lparr> sf_params = Some [1, 0, 0], sf_flux = 2, sf_center = (0, 0),
                    sf_chisq = Some 0, sf_dof = Some 1, sf_alpha = None, sf_beta = None \<rparr> \<rparr>"
  by (simp add: reflux_def ex_draw StarData_def Let_def)
     (simp add: ex_star_def ex_data_def fdiv_def np_sum_def arr_mul_def arr_square_def
        arr_sub_def arr_scale_def count_nonzero_def)

lemma ex_lmfit_params:
  "lmfit_params ex_env (ex_model False) (ex_star (Some [1, 0, 0])) vp vf vc =
     Inr [\<lparr>p_name = ''flux'', p_value = 1, p_vary = vf, p_min = Some 0, p_max = None\<rparr>,
          \<lparr>p_name = ''du'', p_value = 0, p_vary = vc, p_min = None, p_max = None\<rparr>,
          \<lparr>p_name = ''dv'', p_value = 0, p_vary = vc, p_min = None, p_max = None\<rparr>,
          \<lparr>p_name = ''scale'', p_value = 1, p_vary = vp, p_min = Some 0, p_max = None\<rparr>,
          \<lparr>p_name = ''g1'', p_value = 0, p_vary = vp, p_min = Some (- 0.7), p_max = Some 0.7\<rparr>,
          \<lparr>p_name = ''g2'', p_value = 0, p_vary = vp, p_min = Some (- 0.7), p_max = Some 0.7\<rparr>]"
  by (simp add: lmfit_params_def ex_model_def GSObjectModel_def ex_star_def unpack3_def
      params_add_def clip_def Let_def)

lemma ex_lmfit_params_unnormalized:
  "lmfit_params ex_env (ex_model True) (ex_star (Some [5/8, 0, 3/8])) vp vf vc =
     Inr [\<lparr>p_name = ''flux'', p_value = 1, p_vary = vf, p_min = Some 0, p_max = None\<rparr>,
          \<lparr>p_name = ''du'', p_value = 0, p_vary = vc, p_min = None, p_max = None\<rparr>,
          \<lparr>p_name = ''dv'', p_value = 0, p_vary = vc, p_min = None, p_max = None\<rparr>,
          \<lparr>p_name = ''e0'', p_value = 5/8, p_vary = vp, p_min = Some 0, p_max = None\<rparr>,
          \<lparr>p_name = ''e1'', p_value = 0, p_vary = vp, p_min = Some (- 5), p_max = Some 5\<rparr>,
          \<lparr>p_name = ''e2'', p_value = 3/8, p_vary = vp, p_min = Some (- 5), p_max = Some 5\<rparr>]"
  by (simp add: lmfit_params_def ex_model_def GSObjectModel_def ex_star_def unpack3_def
      params_add_def clip_def Let_def)

lemma ex_reflux_center:
  "reflux ex_env (ex_model False) (ex_star (Some [1, 0, 0])) True =
     Inr \<lparr> star_data = ex_data,
           star_fit = \<lparr> sf_params = Some [1, 0, 0], sf_flux = 1, sf_center = (0, 0),
                    sf_chisq = Some 0, sf_dof = Some (- 1), sf_alpha = None, sf_beta = None \<rparr> \<rparr>"
proof -
  have fc: "m_force_model_center (ex_model False)" by (simp add: ex_model_def GSObjectModel_def)
  show ?thesis
    unfolding reflux_def Let_def ex_lmfit_params lmfit_minimize_def
    by (simp add: fc ex_env_def param_value_def ex_star_def ex_data_def count_nonzero_def)
qed

lemma ex_from_unnormalized:
  "convert_from_unnormalized_basis (5/8) 0 (3/8) = Inr (1/2, 0, 1/3)"
proof -
  have a: "sqrt (16 / 25 :: real) = 4 / 5" by (rule sqrt_rat) (simp_all add: power2_eq_square)
  have b: "sqrt (1 / 4 :: real) = 1 / 2" by (rule sqrt_rat) (simp_all add: power2_eq_square)
  have c: "sqrt (1 / 2 * 0.5 :: real) = 1 / 2" using b by simp
  have sh: "Shear_e 0 (3/5) = Inr (Complex 0 (1/3))"
    by (simp add: Shear_e_def e2g_def power2_eq_square a complex_eq_iff)
  have r: "(5/8 :: real)\<^sup>2 - 0\<^sup>2 - (3/8)\<^sup>2 = 1 / 4" by (simp add: power2_eq_square)
  show ?thesis
    unfolding convert_from_unnormalized_basis_def r
    by (simp add: fdiv_def sh fsqrt_def b shear_g1_def shear_g2_def)
qed

lemma ex_to_unnormalized_claimed:
  "convert_to_unnormalized_basis (1/2) 0 (1/3) = Inr (5/8, 0, 3/8)"
proof -
  have "(0::real)\<^sup>2 + (1/3)\<^sup>2 < 1" by (simp add: power2_eq_square)
  from to_unnormalized_closed_form [OF this, of "1/2"] show ?thesis
    by (simp add: g2e_def power2_eq_square)
qed

lemma ex_to_unnormalized_code:
  "convert_to_unnormalized_basis (1/2) 0 (3/8) = Inr (73/110, 0, 24/55)"
proof -
  have "(0::real)\<^sup>2 + (3/8)\<^sup>2 < 1" by (simp add: power2_eq_square)
  from to_unnormalized_closed_form [OF this, of "1/2"] show ?thesis
    by (simp add: g2e_def power2_eq_square)
qed

lemma ex_draw_unnormalized:
  "draw ex_env (ex_model True) (ex_star (Some [5/8, 0, 3/8])) =
     Inr \<lparr> star_data = StarData ex_env \<lparr> img_array = [1, 2, 3], img_true_center = (1, 0) \<rparr>
                          (1, 0) \<lparr> img_array = [1, 1, 0], img_true_center = (1, 0) \<rparr> None,
           star_fit = star_fit (ex_star (Some [5/8, 0, 3/8])) \<rparr>"
  by (simp add: draw_def getProfile_def ex_model_def GSObjectModel_def ex_star_def ex_data_def
      unpack3_def gs_shear_def Shear_g_ok drawImage_def ex_env_def Let_def ex_from_unnormalized
      power2_eq_square)

section \<open>The moment fit\<close>

text \<open>
  In the normalized basis, with the center held apart, the moment fit is the moment-matching
  update of the stored fit.
\<close>

lemma moment_fit_normalized:
  assumes "\<not> m_unnormalized_basis m" and "m_force_model_center m"
    and "sd_properties (star_data star) ''hsm'' = Some (Tuple [flux_d, cenu_d, cenv_d, size_d, g1_d, g2_d])"
    and "sf_params (star_fit star) = Some [scale, g1, g2]"
    and "draw en m star = Inr drawn"
    and "hsm en drawn = (flux_r, cenu_r, cenv_r, size_r, g1_r, g2_r, 0)"
    and "Shear_g g1_d g2_d = Inr shape_d" and "Shear_g g1_r g2_r = Inr shape_r"
    and "Shear_g g1 g2 = Inr shape"
    and "flux_r \<noteq> 0" and "size_r \<noteq> 0"
    and "shear_sub shape_d shape_r = Inr diff" and "shear_add shape diff = Inr shape'"
  shows "moment_fit en m star =
           Inr (sf_flux (star_fit star) * (flux_d / flux_r),
                fst (sf_center (star_fit star)) + (cenu_d - cenu_r),
                snd (sf_center (star_fit star)) + (cenv_d - cenv_r),
                scale * (size_d / size_r),
                shear_g1 shape', shear_g2 shape')"
  using assms
  by (simp add: moment_fit_def getitem_def unpack_moments_def unpack6_def unpack3_def
      fdiv_def Let_def)

text \<open>
  C1. The claim: in the unnormalized basis \<^verbatim>\<open>moment_fit\<close> converts the stored
  \<open>(e0, e1, e2)\<close> to \<open>(scale, g1, g2)\<close>, updates there and converts back. The code converts,
  but binds the third converted value to \<^verbatim>\<open>param_2\<close>, so the update runs on
  \<open>(scale, g1, e2)\<close>. At the stored parameters \<open>(5/8, 0, 3/8)\<close>, which are \<open>(1/2, 0, 1/3)\<close>
  in the normalized basis, with the moments of the data equal to those of the model (the
  update is then the identity, and the claim gives \<open>(5/8, 0, 3/8)\<close> back), the code returns
  \<open>(73/110, 0, 24/55)\<close>.
\<close>

theorem moment_fit_unnormalized_keeps_stored_e2:
  "moment_fit ex_env (ex_model True) (ex_star (Some [5/8, 0, 3/8]))
     = Inr (1, 0, 0, 73/110, 0, 24/55)
   \<and> convert_from_unnormalized_basis (5/8) 0 (3/8) = Inr (1/2, 0, 1/3)
   \<and> convert_to_unnormalized_basis (1/2) 0 (1/3) = Inr (5/8, 0, 3/8)"
proof -
  have hs: "hsm ex_env s = (1, 0, 0, 1, 0, 0, 0)" for s by (simp add: ex_env_def)
  have "moment_fit ex_env (ex_model True) (ex_star (Some [5/8, 0, 3/8]))
     = Inr (1, 0, 0, 73/110, 0, 24/55)"
    unfolding moment_fit_def ex_draw_unnormalized
    by (simp add: hs ex_star_def ex_data_def getitem_def unpack_moments_def unpack6_def
        unpack3_def Shear_g_ok power2_eq_square ex_model_def GSObjectModel_def
        ex_from_unnormalized fdiv_def shear_sub_def shear_add_def shear_neg_def
        shear_g1_def shear_g2_def ex_to_unnormalized_code complex_eq_iff)
  then show ?thesis
    using ex_from_unnormalized ex_to_unnormalized_claimed by simp
qed

section \<open>Flux-only reflux\<close>

text \<open>
  C3. In flux-only mode (\<^verbatim>\<open>fit_center\<close> false or \<^verbatim>\<open>force_model_center\<close> false), for a
  star whose model renders to \<open>drawn\<close> and with a nonzero denominator, \<^verbatim>\<open>reflux\<close> returns
  the star with its flux multiplied by
  \<open>fluxRatio = \<Sum> w d m / \<Sum> w m\<^sup>2\<close>, \<open>chisq = \<Sum> w (d - fluxRatio m)\<^sup>2\<close> and
  \<open>dof\<close> the number of pixels of nonzero weight minus one; the sums run over the pixels of
  the stamp. The result is the same whatever the minimizer is: it is not consulted.
\<close>

theorem reflux_flux_only:
  fixes en :: env and m :: model and star drawn :: star and fit_center :: bool
  defines "w \<equiv> img_array (sd_weight (star_data star))"
    and "d \<equiv> img_array (sd_image (star_data star))"
    and "mdl \<equiv> img_array (sd_image (star_data drawn))"
  defines "n \<equiv> min (length w) (length d)"
  defines "fluxRatio \<equiv> (\<Sum>i<n. w ! i * d ! i * mdl ! i) / (\<Sum>i<n. w ! i * (mdl ! i)\<^sup>2)"
  assumes mode: "\<not> (fit_center \<and> m_force_model_center m)"
    and rendering: "draw en m star = Inr drawn"
    and den: "(\<Sum>i<n. w ! i * (mdl ! i)\<^sup>2) \<noteq> 0"
  shows "reflux en m star fit_center =
           Inr \<lparr> star_data = star_data star,
                 star_fit = (star_fit star)
                   \<lparr> sf_flux := sf_flux (star_fit star) * fluxRatio,
                     sf_chisq := Some (\<Sum>i<n. w ! i * (d ! i - fluxRatio * mdl ! i)\<^sup>2),
                     sf_dof := Some (int (card {i. i < length w \<and> w ! i \<noteq> 0}) - 1) \<rparr> \<rparr>
         \<and> (\<forall>mz. reflux (en \<lparr> minimize := mz \<rparr>) m star fit_center = reflux en m star fit_center)"
proof -
  have len: "length mdl = length d"
    unfolding mdl_def d_def by (rule draw_image_length [OF rendering])
  have s1: "np_sum (arr_mul (arr_mul w d) mdl) = (\<Sum>i<n. w ! i * d ! i * mdl ! i)"
    unfolding np_sum_def arr_mul_def sum_list_map2
    by (rule sum.cong) (simp_all add: n_def len)
  have s2: "np_sum (arr_mul w (arr_square mdl)) = (\<Sum>i<n. w ! i * (mdl ! i)\<^sup>2)"
    unfolding np_sum_def arr_mul_def arr_square_def sum_list_map2
    by (rule sum.cong) (simp_all add: n_def len)
  have s3: "np_sum (arr_mul w (arr_square (arr_sub d (arr_scale c mdl))))
              = (\<Sum>i<n. w ! i * (d ! i - c * mdl ! i)\<^sup>2)" for c
    unfolding np_sum_def arr_mul_def arr_square_def arr_sub_def arr_scale_def sum_list_map2
    by (rule sum.cong) (simp_all add: n_def len)
  have dv: "fdiv (np_sum (arr_mul (arr_mul w d) mdl)) (np_sum (arr_mul w (arr_square mdl)))
              = Inr fluxRatio"
    unfolding s1 s2 fluxRatio_def using den by (simp add: fdiv_def)
  have nm: "(fit_center \<and> m_force_model_center m) = False" using mode by simp
  have main: "reflux en m star fit_center =
           Inr \<lparr> star_data = star_data star,
                 star_fit = (star_fit star)
                   \<lparr> sf_flux := sf_flux (star_fit star) * fluxRatio,
                     sf_chisq := Some (\<Sum>i<n. w ! i * (d ! i - fluxRatio * mdl ! i)\<^sup>2),
                     sf_dof := Some (int (card {i. i < length w \<and> w ! i \<noteq> 0}) - 1) \<rparr> \<rparr>"
    unfolding reflux_def Let_def nm if_False
    by (simp add: rendering w_def [symmetric] d_def [symmetric]
        mdl_def [symmetric] dv s3 count_nonzero_card)
  have indep: "reflux (en \<lparr> minimize := mz \<rparr>) m star fit_center = reflux en m star fit_center" for mz
    unfolding reflux_def Let_def nm if_False by (simp add: draw_minimize_irrelevant)
  show ?thesis using main indep by blast
qed

theorem reflux_flux_only_witness:
  "\<not> (False \<and> m_force_model_center (ex_model False))
   \<and> (\<exists>drawn. draw ex_env (ex_model False) (ex_star (Some [1, 0, 0])) = Inr drawn
        \<and> img_array (sd_image (star_data drawn)) = [1, 2, 3])
   \<and> reflux ex_env (ex_model False) (ex_star (Some [1, 0, 0])) False =
       Inr \<lparr> star_data = ex_data,
             star_fit = \<lparr> sf_params = Some [1, 0, 0], sf_flux = 2, sf_center = (0, 0),
                    sf_chisq = Some 0, sf_dof = Some 1, sf_alpha = None, sf_beta = None \<rparr> \<rparr>"
proof -
  have three: "{..<3::nat} = {0, 1, 2}" by auto
  have cnt: "{i. i < Suc (Suc (Suc 0)) \<and> [1, 1, 0 :: real] ! i \<noteq> 0} = {0, Suc 0}"
    by (auto simp: nth_Cons' less_Suc_eq)
  have mode: "\<not> (False \<and> m_force_model_center (ex_model False))" by simp
  have den: "(\<Sum>i<min (length (img_array (sd_weight (star_data (ex_star (Some [1, 0, 0]))))))
                       (length (img_array (sd_image (star_data (ex_star (Some [1, 0, 0])))))).
               img_array (sd_weight (star_data (ex_star (Some [1, 0, 0])))) ! i *
               (img_array (sd_image (star_data
                  \<lparr> star_data = StarData ex_env \<lparr> img_array = [1, 2, 3], img_true_center = (1, 0) \<rparr>
                          (1, 0) \<lparr> img_array = [1, 1, 0], img_true_center = (1, 0) \<rparr> None,
                    star_fit = star_fit (ex_star (Some [1, 0, 0])) \<rparr>)) ! i)\<^sup>2) \<noteq> 0"
    by (simp add: ex_star_def ex_data_def StarData_def three)
  show ?thesis
    using reflux_flux_only [OF mode ex_draw den] ex_draw
    by (simp add: ex_star_def ex_data_def StarData_def three cnt)
qed

section \<open>Seeding the nonlinear fit\<close>

lemma lmfit_params_unset_raises:
  assumes "sf_params (star_fit star) = None"
  shows "\<exists>err. lmfit_params en m star vary_params vary_flux vary_center = Inl err"
proof (cases "moment_fit en m star")
  case (Inl err)
  with assms show ?thesis by (simp add: lmfit_params_def)
next
  case (Inr six)
  with assms show ?thesis by (simp add: lmfit_params_def)
qed

lemma moment_fit_unset_raises:
  assumes "sf_params (star_fit star) = None"
  shows "\<exists>err. moment_fit en m star = Inl err"
proof -
  have d: "draw en m star = Inl (TypeError ''cannot unpack non-iterable NoneType object'')"
    using assms by (simp add: draw_def getProfile_unset)
  show ?thesis
  proof (cases "getitem (sd_properties (star_data star)) ''hsm''")
    case (Inl err)
    then show ?thesis by (simp add: moment_fit_def)
  next
    case c: (Inr cached)
    show ?thesis
    proof (cases "unpack_moments cached")
      case (Inl err)
      with c show ?thesis by (simp add: moment_fit_def)
    next
      case u: (Inr mo)
      obtain flux cenu cenv size g1 g2 where mo: "mo = (flux, cenu, cenv, size, g1, g2)"
        by (metis prod_cases6)
      show ?thesis
        by (cases "Shear_g g1 g2") (simp_all add: moment_fit_def c u mo d)
    qed
  qed
qed

lemma lmfit_params_seed_from_fit:
  assumes "sf_params (star_fit star) = Some ps"
    and "lmfit_params en m star vary_params vary_flux vary_center = Inr lm"
  shows "length ps = (if m_force_model_center m then 3 else 5)"
    and "map p_name lm = (if m_unnormalized_basis m
                          then [''flux'', ''du'', ''dv'', ''e0'', ''e1'', ''e2'']
                          else [''flux'', ''du'', ''dv'', ''scale'', ''g1'', ''g2''])"
    and "map (\<lambda>p. p_value p) lm =
           map (\<lambda>(p, v). clip (p_min p) (p_max p) v)
             (zip lm (if m_force_model_center m
                      then [sf_flux (star_fit star), fst (sf_center (star_fit star)),
                            snd (sf_center (star_fit star)), ps ! 0, ps ! 1, ps ! 2]
                      else [sf_flux (star_fit star), ps ! 0, ps ! 1, ps ! 2, ps ! 3, ps ! 4]))"
  using assms
  by (auto simp: lmfit_params_def ebind_eq_Inr Let_def params_add_def unpack3_def unpack5_def
      split_def split: if_splits list.splits)

text \<open>
  C4. The claim: with \<^verbatim>\<open>fit.params\<close> unset, the parameter set is seeded from the moment
  fit. The code calls \<^verbatim>\<open>moment_fit\<close>, which draws the star and so unpacks the unset
  parameters: for the example star without parameters \<^verbatim>\<open>_lmfit_params\<close> raises
  \<^verbatim>\<open>TypeError\<close>. (By \<open>lmfit_params_unset_raises\<close> no star with unset parameters is ever
  seeded; by \<open>lmfit_params_seed_from_fit\<close> a star with set parameters is seeded from its
  fit, decoded by the layout and clipped to the bounds.)
\<close>

theorem lmfit_params_unset_never_seeds:
  "sf_params (star_fit (ex_star None)) = None
   \<and> lmfit_params ex_env (ex_model False) (ex_star None) True True True
       = Inl (TypeError ''cannot unpack non-iterable NoneType object'')"
  by (simp add: lmfit_params_def moment_fit_def draw_def getProfile_unset ex_star_def
      ex_data_def getitem_def unpack_moments_def unpack6_def Shear_g_ok)

section \<open>Cached moments\<close>

text \<open>
  C5. The claim: a star that carries cached moments is not measured again, and \<^verbatim>\<open>fit\<close>
  does not initialize it. The code tests \<^verbatim>\<open>hasattr(star.data.properties, 'hsm')\<close>, which is
  false for every dict: the example star has cached moments with flux \<open>1\<close>, and \<^verbatim>\<open>with_hsm\<close>
  replaces them by a fresh measurement with flux \<open>2\<close>; with an estimator that fails,
  \<^verbatim>\<open>fit\<close> and \<^verbatim>\<open>initialize\<close> on that star raise the error of the measurement in
  \<^verbatim>\<open>with_hsm\<close>.
\<close>

theorem cached_moments_are_measured_again:
  "sd_properties (star_data (ex_star (Some [1, 0, 0]))) ''hsm'' = Some (Tuple [1, 0, 0, 1, 0, 0])
   \<and> (\<exists>r. with_hsm (ex_env \<lparr> hsm := other_hsm \<rparr>) (ex_star (Some [1, 0, 0])) = Inr r
          \<and> sd_properties (star_data r) ''hsm'' = Some (Tuple [2, 0, 0, 1, 0, 0]))
   \<and> fit (ex_env \<lparr> hsm := failing_hsm \<rparr>) (ex_model False) (ex_star (Some [1, 0, 0])) (Some True)
       = Inl (RuntimeError ''Error initializing star fit values using hsm.'')
   \<and> initialize (ex_env \<lparr> hsm := failing_hsm \<rparr>) (ex_model False) (ex_star (Some [1, 0, 0]))
       = Inl (RuntimeError ''Error initializing star fit values using hsm.'')"
proof -
  have w: "with_hsm (ex_env \<lparr> hsm := failing_hsm \<rparr>) (ex_star (Some [1, 0, 0]))
             = Inl (RuntimeError ''Error initializing star fit values using hsm.'')"
    by (simp add: with_hsm_def hasattr_hsm failing_hsm_def)
  have i: "initialize (ex_env \<lparr> hsm := failing_hsm \<rparr>) (ex_model False) (ex_star (Some [1, 0, 0]))
       = Inl (RuntimeError ''Error initializing star fit values using hsm.'')"
    by (simp add: initialize.simps w)
  have f: "fit (ex_env \<lparr> hsm := failing_hsm \<rparr>) (ex_model False) (ex_star (Some [1, 0, 0])) (Some True)
       = Inl (RuntimeError ''Error initializing star fit values using hsm.'')"
    by (simp add: fit.simps hasattr_hsm i)
  have c: "sd_properties (star_data (ex_star (Some [1, 0, 0]))) ''hsm'' = Some (Tuple [1, 0, 0, 1, 0, 0])"
    by (simp add: ex_star_def ex_data_def)
  have o: "\<exists>r. with_hsm (ex_env \<lparr> hsm := other_hsm \<rparr>) (ex_star (Some [1, 0, 0])) = Inr r
          \<and> sd_properties (star_data r) ''hsm'' = Some (Tuple [2, 0, 0, 1, 0, 0])"
    by (simp add: with_hsm_def hasattr_hsm other_hsm_def Let_def)
  show ?thesis using c o f i by blast
qed

text \<open>
  C6. If the moment estimator returns a nonzero flag for every star, \<^verbatim>\<open>initialize\<close>
  raises the error of the failed measurement and returns no star.
\<close>

theorem initialize_measurement_failure:
  assumes "\<forall>s. snd (snd (snd (snd (snd (snd (hsm en s)))))) \<noteq> 0"
  shows "initialize en m star = Inl (RuntimeError ''Error initializing star fit values using hsm.'')"
proof -
  obtain flux cenu cenv size g1 g2 flag where h: "hsm en star = (flux, cenu, cenv, size, g1, g2, flag)"
    by (metis prod_cases7)
  with assms have "flag \<noteq> 0" by (metis snd_conv)
  then have "with_hsm en star = Inl (RuntimeError ''Error initializing star fit values using hsm.'')"
    by (simp add: with_hsm_def hasattr_hsm h)
  then show ?thesis by (simp add: initialize.simps)
qed

theorem initialize_measurement_failure_witness:
  "(\<forall>s. snd (snd (snd (snd (snd (snd (hsm (ex_env \<lparr> hsm := failing_hsm \<rparr>) s)))))) \<noteq> 0)
   \<and> initialize (ex_env \<lparr> hsm := failing_hsm \<rparr>) (ex_model False) (ex_star None)
       = Inl (RuntimeError ''Error initializing star fit values using hsm.'')"
proof -
  have h: "\<forall>s. snd (snd (snd (snd (snd (snd (hsm (ex_env \<lparr> hsm := failing_hsm \<rparr>) s)))))) \<noteq> 0"
    by (simp add: failing_hsm_def)
  show ?thesis
    using h initialize_measurement_failure [OF h, of "ex_model False" "ex_star None"] by blast
qed

section \<open>The parameter set of the minimizer\<close>

text \<open>
  C7. Every parameter set \<^verbatim>\<open>_lmfit_params\<close> builds holds, in this order: the flux, bounded
  below by \<open>0\<close>; \<open>du\<close> and \<open>dv\<close>, unbounded; the size; and the two shape parameters, bounded
  to \<open>[-0.7, 0.7]\<close> in the normalized basis and to \<open>[-5, 5]\<close> in the unnormalized basis.
\<close>

theorem lmfit_params_bounds:
  assumes "lmfit_params en m star vary_params vary_flux vary_center = Inr ps"
  shows "map (\<lambda>p. (p_name p, p_min p, p_max p)) ps =
           (if m_unnormalized_basis m
            then [(''flux'', Some 0, None), (''du'', None, None), (''dv'', None, None),
                  (''e0'', Some 0, None), (''e1'', Some (- 5), Some 5), (''e2'', Some (- 5), Some 5)]
            else [(''flux'', Some 0, None), (''du'', None, None), (''dv'', None, None),
                  (''scale'', Some 0, None), (''g1'', Some (- 0.7), Some 0.7),
                  (''g2'', Some (- 0.7), Some 0.7)])"
  using lmfit_params_shape [OF assms] by auto

theorem lmfit_params_bounds_witness:
  "(\<exists>ps. lmfit_params ex_env (ex_model False) (ex_star (Some [1, 0, 0])) True True True = Inr ps
      \<and> map (\<lambda>p. (p_name p, p_min p, p_max p)) ps =
          [(''flux'', Some 0, None), (''du'', None, None), (''dv'', None, None),
           (''scale'', Some 0, None), (''g1'', Some (- 0.7), Some 0.7),
           (''g2'', Some (- 0.7), Some 0.7)])
   \<and> (\<exists>ps. lmfit_params ex_env (ex_model True) (ex_star (Some [5/8, 0, 3/8])) False True True = Inr ps
      \<and> map (\<lambda>p. (p_name p, p_min p, p_max p)) ps =
          [(''flux'', Some 0, None), (''du'', None, None), (''dv'', None, None),
           (''e0'', Some 0, None), (''e1'', Some (- 5), Some 5), (''e2'', Some (- 5), Some 5)])"
proof -
  have n: "m_unnormalized_basis (ex_model b) = b" for b
    by (simp add: ex_model_def GSObjectModel_def)
  show ?thesis
    using lmfit_params_bounds [OF ex_lmfit_params [of True True True]]
      lmfit_params_bounds [OF ex_lmfit_params_unnormalized [of False True True]]
    by (simp add: n ex_lmfit_params ex_lmfit_params_unnormalized)
qed

lemma one_step_minimize_honours_bounds: "honours_bounds one_step_minimize"
  by (simp add: honours_bounds_def one_step_minimize_def)

lemma ex_lmfit_params_negative_size:
  "lmfit_params en (ex_model False) (ex_star (Some [- 2, 0, 0])) vp vf vc =
     Inr [\<lparr>p_name = ''flux'', p_value = 1, p_vary = vf, p_min = Some 0, p_max = None\<rparr>,
          \<lparr>p_name = ''du'', p_value = 0, p_vary = vc, p_min = None, p_max = None\<rparr>,
          \<lparr>p_name = ''dv'', p_value = 0, p_vary = vc, p_min = None, p_max = None\<rparr>,
          \<lparr>p_name = ''scale'', p_value = 0, p_vary = vp, p_min = Some 0, p_max = None\<rparr>,
          \<lparr>p_name = ''g1'', p_value = 0, p_vary = vp, p_min = Some (- 0.7), p_max = Some 0.7\<rparr>,
          \<lparr>p_name = ''g2'', p_value = 0, p_vary = vp, p_min = Some (- 0.7), p_max = Some 0.7\<rparr>]"
  by (simp add: lmfit_params_def ex_model_def GSObjectModel_def ex_star_def unpack3_def
      params_add_def clip_def Let_def)

text \<open>
  C10. Whatever the star and the vary flags, the fourth parameter of the set
  \<^verbatim>\<open>_lmfit_params\<close> builds is the size (\<open>scale\<close>, or \<open>e0\<close> in the unnormalized basis) with
  lower bound \<open>0\<close>, and its initial value is not negative (a negative stored size is clipped
  to \<open>0\<close>). Every parameter set within the bounds has a size that is not negative. So, with
  a minimizer that keeps to the bounds, \<^verbatim>\<open>_lmfit_resid\<close> is never invoked with a negative
  size: minimizing \<^verbatim>\<open>_lmfit_resid\<close> is minimizing the evaluator that cannot be invoked with
  a negative size.
\<close>

theorem lmfit_params_size_nonneg:
  assumes "lmfit_params en m star vary_params vary_flux vary_center = Inr ps"
    and "honours_bounds (minimize en)"
  shows "p_name (ps ! 3) = (if m_unnormalized_basis m then ''e0'' else ''scale'')
         \<and> p_min (ps ! 3) = Some 0
         \<and> 0 \<le> p_value (ps ! 3)
         \<and> (\<forall>v. admits (ps ! 3) v \<longrightarrow> 0 \<le> v)
         \<and> (\<forall>q. in_bounds ps q \<longrightarrow> 0 \<le> p_value (q ! 3))
         \<and> lmfit_minimize en m ps star
             = minimize en (nonneg_size_only (\<lambda>lmparams. lmfit_resid en m lmparams star)) ps"
proof -
  from lmfit_params_shape [OF assms(1)] obtain flux du dv scale g1 g2 where
    nonneg: "0 \<le> scale" and
    ps: "ps =
    [\<lparr>p_name = ''flux'', p_value = flux, p_vary = vary_flux, p_min = Some 0, p_max = None\<rparr>,
     \<lparr>p_name = ''du'', p_value = du, p_vary = vary_center, p_min = None, p_max = None\<rparr>,
     \<lparr>p_name = ''dv'', p_value = dv, p_vary = vary_center, p_min = None, p_max = None\<rparr>,
     \<lparr>p_name = (if m_unnormalized_basis m then ''e0'' else ''scale''), p_value = scale,
       p_vary = vary_params, p_min = Some 0, p_max = None\<rparr>,
     \<lparr>p_name = (if m_unnormalized_basis m then ''e1'' else ''g1''), p_value = g1,
       p_vary = vary_params,
       p_min = Some (- (if m_unnormalized_basis m then 5 else 0.7)),
       p_max = Some (if m_unnormalized_basis m then 5 else 0.7)\<rparr>,
     \<lparr>p_name = (if m_unnormalized_basis m then ''e2'' else ''g2''), p_value = g2,
       p_vary = vary_params,
       p_min = Some (- (if m_unnormalized_basis m then 5 else 0.7)),
       p_max = Some (if m_unnormalized_basis m then 5 else 0.7)\<rparr>]"
    by blast
  have size: "p_name (ps ! 3) = (if m_unnormalized_basis m then ''e0'' else ''scale'')"
    "p_min (ps ! 3) = Some 0" "0 \<le> p_value (ps ! 3)"
    using nonneg by (simp_all add: ps)
  have adm: "\<forall>v. admits (ps ! 3) v \<longrightarrow> 0 \<le> v"
    by (simp add: ps admits_def)
  have inb: "0 \<le> p_value (q ! 3)" if "in_bounds ps q" for q
    using that unfolding in_bounds_def ps
    by (auto simp: list_all2_Cons1 admits_def)
  have agree: "lmfit_resid en m q star
                 = nonneg_size_only (\<lambda>lmparams. lmfit_resid en m lmparams star) q"
    if "in_bounds ps q" for q
    using inb [OF that] by (simp add: nonneg_size_only_def)
  have contract: "minimize en f ps = minimize en g ps"
    if "\<forall>q. in_bounds ps q \<longrightarrow> f q = g q" for f g
    using assms(2) that by (simp add: honours_bounds_def)
  have "minimize en (\<lambda>lmparams. lmfit_resid en m lmparams star) ps
          = minimize en (nonneg_size_only (\<lambda>lmparams. lmfit_resid en m lmparams star)) ps"
    by (rule contract) (simp add: agree)
  then have mini: "lmfit_minimize en m ps star
             = minimize en (nonneg_size_only (\<lambda>lmparams. lmfit_resid en m lmparams star)) ps"
    by (simp add: lmfit_minimize_def)
  show ?thesis using size adm inb mini by blast
qed

theorem lmfit_params_size_nonneg_witness:
  "honours_bounds (minimize (ex_env \<lparr> minimize := one_step_minimize \<rparr>))
   \<and> (\<exists>ps. lmfit_params (ex_env \<lparr> minimize := one_step_minimize \<rparr>) (ex_model False)
              (ex_star (Some [- 2, 0, 0])) True True True = Inr ps
      \<and> p_name (ps ! 3) = ''scale'' \<and> p_min (ps ! 3) = Some 0 \<and> p_value (ps ! 3) = 0
      \<and> admits (ps ! 3) (5/8) \<and> \<not> admits (ps ! 3) (- 1)
      \<and> (\<forall>q. in_bounds ps q \<longrightarrow> 0 \<le> p_value (q ! 3))
      \<and> lmfit_minimize (ex_env \<lparr> minimize := one_step_minimize \<rparr>) (ex_model False) ps
           (ex_star (Some [- 2, 0, 0]))
         = one_step_minimize
             (nonneg_size_only (\<lambda>lmparams.
                lmfit_resid (ex_env \<lparr> minimize := one_step_minimize \<rparr>) (ex_model False)
                  lmparams (ex_star (Some [- 2, 0, 0])))) ps)"
proof -
  have n: "m_unnormalized_basis (ex_model b) = b" for b
    by (simp add: ex_model_def GSObjectModel_def)
  have h: "honours_bounds (minimize (ex_env \<lparr> minimize := one_step_minimize \<rparr>))"
    by (simp add: one_step_minimize_honours_bounds)
  show ?thesis
    using h lmfit_params_size_nonneg [OF ex_lmfit_params_negative_size [of _ True True True] h]
    by (simp add: n ex_lmfit_params_negative_size admits_def)
qed

section \<open>Frames of reflux and draw\<close>

text \<open>
  C8. In both modes, the star \<^verbatim>\<open>reflux\<close> returns has the data of the input and a fit that
  differs from the input fit in flux, center, chisq and dof only: the parameter vector,
  alpha and beta are those of the input.
\<close>

theorem reflux_frame:
  assumes "reflux en m star fit_center = Inr r"
  shows "star_data r = star_data star
         \<and> star_fit r = (star_fit star) \<lparr> sf_flux := sf_flux (star_fit r),
                                          sf_center := sf_center (star_fit r),
                                          sf_chisq := sf_chisq (star_fit r),
                                          sf_dof := sf_dof (star_fit r) \<rparr>
         \<and> sf_params (star_fit r) = sf_params (star_fit star)
         \<and> sf_alpha (star_fit r) = sf_alpha (star_fit star)
         \<and> sf_beta (star_fit r) = sf_beta (star_fit star)"
  using assms
  by (cases "fit_center \<and> m_force_model_center m")
     (auto simp: reflux_def Let_def ebind_eq_Inr)

theorem reflux_frame_witness:
  "(\<exists>r. reflux ex_env (ex_model False) (ex_star (Some [1, 0, 0])) False = Inr r
      \<and> sf_flux (star_fit r) = 2
      \<and> star_data r = star_data (ex_star (Some [1, 0, 0]))
      \<and> sf_params (star_fit r) = Some [1, 0, 0]
      \<and> sf_alpha (star_fit r) = None \<and> sf_beta (star_fit r) = None)
   \<and> (\<exists>r. reflux ex_env (ex_model False) (ex_star (Some [1, 0, 0])) True = Inr r
      \<and> sf_dof (star_fit r) = Some (- 1)
      \<and> star_data r = star_data (ex_star (Some [1, 0, 0]))
      \<and> sf_params (star_fit r) = Some [1, 0, 0]
      \<and> sf_alpha (star_fit r) = None \<and> sf_beta (star_fit r) = None)"
  using reflux_frame [OF ex_reflux] reflux_frame [OF ex_reflux_center] ex_reflux ex_reflux_center
  by (simp add: ex_star_def)

text \<open>
  With the center held apart and the normalized basis, \<^verbatim>\<open>draw\<close> returns a star for every
  parameter vector of length three whose shear lies in the unit disc.
\<close>

lemma draw_returns:
  assumes "m_force_model_center m" and "\<not> m_unnormalized_basis m"
    and "sf_params (star_fit star) = Some [scale, g1, g2]" and "g1\<^sup>2 + g2\<^sup>2 \<le> 1"
  shows "\<exists>r. draw en m star = Inr r"
  using assms
  by (simp add: draw_def getProfile_def unpack3_def gs_shear_def Shear_g_ok Let_def)

text \<open>
  C9. The star \<^verbatim>\<open>draw\<close> returns has the fit of the input, unchanged; its data hold the
  rendering of the profile of that fit and the weight, image position and pointing of the
  input; its properties are the position properties of the constructor only, without the
  cached moments, and do not depend on the properties of the input.
\<close>

theorem draw_frame:
  assumes "draw en m star = Inr r"
  shows "star_fit r = star_fit star
         \<and> (\<exists>profile. getProfile m (sf_params (star_fit star)) = Inr profile
               \<and> sd_image (star_data r) =
                   drawImage en
                     (Times (Shift profile (fst (sf_center (star_fit star)))
                                           (snd (sf_center (star_fit star))))
                            (sf_flux (star_fit star)))
                     (sd_image (star_data star)) (m_method m)
                     (pos_sub (sd_image_pos (star_data star))
                        (img_true_center (sd_image (star_data star)))))
         \<and> sd_weight (star_data r) = sd_weight (star_data star)
         \<and> sd_image_pos (star_data r) = sd_image_pos (star_data star)
         \<and> sd_pointing (star_data r) = sd_pointing (star_data star)
         \<and> sd_properties (star_data r) ''hsm'' = None
         \<and> dom (sd_properties (star_data r)) = {''x'', ''y'', ''u'', ''v''}
         \<and> (\<forall>props. draw en m (star \<lparr> star_data := (star_data star) \<lparr> sd_properties := props \<rparr> \<rparr>)
                      = Inr r)"
proof -
  from assms obtain profile where
    gp: "getProfile m (sf_params (star_fit star)) = Inr profile" and
    r: "r = \<lparr> star_data = StarData en
                (drawImage en
                   (Times (Shift profile (fst (sf_center (star_fit star)))
                                         (snd (sf_center (star_fit star))))
                          (sf_flux (star_fit star)))
                   (sd_image (star_data star)) (m_method m)
                   (pos_sub (sd_image_pos (star_data star))
                      (img_true_center (sd_image (star_data star)))))
                (sd_image_pos (star_data star)) (sd_weight (star_data star))
                (sd_pointing (star_data star)),
              star_fit = star_fit star \<rparr>"
    by (auto simp: draw_def Let_def ebind_eq_Inr)
  have "dom (sd_properties (star_data r)) = {''x'', ''y'', ''u'', ''v''}"
    unfolding r by (auto simp: StarData_def split: if_splits)
  moreover have "sd_properties (star_data r) ''hsm'' = None"
    unfolding r by (simp add: StarData_def)
  moreover have "\<forall>props. draw en m (star \<lparr> star_data := (star_data star) \<lparr> sd_properties := props \<rparr> \<rparr>)
                      = Inr r"
    using assms by (simp add: draw_def Let_def)
  moreover have "\<exists>profile. getProfile m (sf_params (star_fit star)) = Inr profile
               \<and> sd_image (star_data r) =
                   drawImage en
                     (Times (Shift profile (fst (sf_center (star_fit star)))
                                           (snd (sf_center (star_fit star))))
                            (sf_flux (star_fit star)))
                     (sd_image (star_data star)) (m_method m)
                     (pos_sub (sd_image_pos (star_data star))
                        (img_true_center (sd_image (star_data star))))"
    unfolding r using gp by (simp add: StarData_def)
  ultimately show ?thesis
    by (simp add: r StarData_def)
qed

theorem draw_frame_witness:
  "\<exists>r. draw ex_env (ex_model False) (ex_star (Some [1, 0, 0])) = Inr r
      \<and> star_fit r = star_fit (ex_star (Some [1, 0, 0]))
      \<and> img_array (sd_image (star_data r)) = [1, 2, 3]
      \<and> sd_properties (star_data (ex_star (Some [1, 0, 0]))) ''hsm'' \<noteq> None
      \<and> sd_properties (star_data r) ''hsm'' = None"
  using draw_frame [OF ex_draw] ex_draw
  by (simp add: StarData_def ex_star_def ex_data_def)

end
